theory Spec2Isabelle
  imports Main
begin

section \<open>Data model\<close>

text \<open>
  The trivia backend (\<^verbatim>\<open>backend/flaskr/__init__.py\<close>) keeps two tables, questions and
  categories, and answers HTTP requests over them. The tables live in \<^verbatim>\<open>models.py\<close>,
  which is not among the sources; the rows are modelled as records with the fields
  the specification lists, and a table as the list of its rows in query order.
\<close>

record question =
  q_id :: int
  q_text :: string
  q_answer :: string
  q_category :: int
  q_difficulty :: int

record category =
  c_id :: int
  c_type :: string

record store =
  question_rows :: "question list"
  category_rows :: "category list"

text \<open>
  Python values that the handlers compare with the empty string: a JSON field of a
  create request is a string or a number, and a JSON \<^verbatim>\<open>null\<close> is Python's
  \<^verbatim>\<open>None\<close>.
\<close>

datatype pyval = PyNone | PyStr string | PyInt int

text \<open>
  A key of a JSON object: it is not there, or it is there with the value
  \<^verbatim>\<open>null\<close>, or it is there with a value.
\<close>

datatype 'a field = Absent | NullValue | Present 'a

text \<open>
  The value of \<^verbatim>\<open>quiz_category\<close>: an object whose key \<^verbatim>\<open>id\<close>, when it is there,
  holds an integer; \<open>None\<close> is an object without that key.
\<close>

record quiz_category =
  qc_type :: string
  qc_id :: "int option"

text \<open>
  A JSON object as the handlers read it, key by key. A key that has a value has the
  type the client sends: \<^verbatim>\<open>searchTerm\<close> a string, \<^verbatim>\<open>previous_questions\<close> a list of
  question ids, \<^verbatim>\<open>quiz_category\<close> an object.
\<close>

record json_body =
  j_question :: "pyval field"
  j_answer :: "pyval field"
  j_difficulty :: "pyval field"
  j_category :: "pyval field"
  j_searchTerm :: "string field"
  j_previous_questions :: "int list field"
  j_quiz_category :: "quiz_category field"

text \<open>
  The JSON document of a request, as \<^verbatim>\<open>request.get_json()\<close> returns it: an object,
  or one of the JSON values that are no object.
\<close>

datatype json_doc = JObject json_body | JNull | JArray | JString | JNumber | JBool

datatype http_method = GET | POST | DELETE | PATCH | PUT

text \<open>
  The paths of the application. The \<^verbatim>\<open><int:id>\<close> converter of the URL rules accepts
  unsigned decimal numbers only, hence the \<open>nat\<close>.
\<close>

datatype path =
    PCategories
  | PQuestions
  | PQuestionItem nat
  | PCategoryQuestions nat
  | PQuizzes
  | POther string

text \<open>
  A request: method, path, the \<^verbatim>\<open>page\<close> query argument as
  \<^verbatim>\<open>request.args.get('page', 1, type=int)\<close> reads it (\<open>None\<close> when the argument is
  missing or is not an integer, in which case the default applies), and the JSON
  document of the body.
\<close>

record request =
  r_method :: http_method
  r_path :: path
  r_page :: "int option"
  r_json :: json_doc

section \<open>Outcomes of a handler\<close>

datatype py_exc =
    IndexError
  | AttributeError
  | NameError
  | ValueError
  | TypeError
  | KeyError
  | DataError
  | MultipleResultsFound

text \<open>The JSON documents the handlers build with \<^verbatim>\<open>jsonify\<close>.\<close>

datatype 'f payload =
    CategoriesDoc "(int \<times> string) list"
  | QuestionsDoc "'f list" nat "(int \<times> string) list"
  | MessageDoc string
  | SearchDoc "'f list" nat
  | CategoryDoc "'f list" nat string
  | QuizDoc 'f

text \<open>
  A handler returns a response with a status, or leaves through \<^verbatim>\<open>abort(code)\<close>, or
  through a Python exception that nothing catches.
\<close>

datatype 'f outcome =
    Response nat "'f payload"
  | Abort nat
  | Raised py_exc

text \<open>
  The status the client sees: the registered error handlers answer an abort with its
  code, and Flask answers an uncaught exception with 500.
\<close>

fun status_of :: "'f outcome \<Rightarrow> nat" where
  "status_of (Response s _) = s"
| "status_of (Abort code) = code"
| "status_of (Raised _) = 500"

text \<open>\<^verbatim>\<open>try: ... except IndexError: abort(code)\<close>: only an \<^verbatim>\<open>IndexError\<close> is caught.\<close>

fun except_IndexError :: "'f outcome \<Rightarrow> nat \<Rightarrow> 'f outcome" where
  "except_IndexError (Raised IndexError) code = Abort code"
| "except_IndexError r code = r"

section \<open>Pagination\<close>

definition QUESTIONS_PER_PAGE :: int where
  "QUESTIONS_PER_PAGE = 10"

text \<open>
  Python's slice \<^verbatim>\<open>xs[start:end]\<close>: a negative bound counts from the end, and both
  bounds are clamped to the list.
\<close>

definition slice_bound :: "int \<Rightarrow> int \<Rightarrow> int" where
  "slice_bound n i = (if i < 0 then max (i + n) 0 else min i n)"

definition py_slice :: "'a list \<Rightarrow> int \<Rightarrow> int \<Rightarrow> 'a list" where
  "py_slice xs start end =
     (let n = int (length xs);
          s = slice_bound n start;
          e = slice_bound n end
      in take (nat (e - s)) (drop (nat s) xs))"

text \<open>
  \<^verbatim>\<open>paginate_questions(request, selection)\<close>. \<open>fmt\<close> stands for \<^verbatim>\<open>Question.format\<close>
  of \<^verbatim>\<open>models.py\<close>, which is not among the sources.
\<close>

definition paginate_questions :: "(question \<Rightarrow> 'f) \<Rightarrow> request \<Rightarrow> question list \<Rightarrow> 'f list" where
  "paginate_questions fmt req selection =
     (let page = (case r_page req of None \<Rightarrow> 1 | Some p \<Rightarrow> p);
          start = (page - 1) * QUESTIONS_PER_PAGE;
          end = start + QUESTIONS_PER_PAGE;
          questions = map fmt selection;
          current_questions = py_slice questions start end
      in current_questions)"

section \<open>The store's queries\<close>

text \<open>
  Modelled from the spec: the query primitives of the catalog store (SQLAlchemy over
  \<^verbatim>\<open>models.py\<close>, neither among the sources): full scan, filter by category, lookup
  by primary key, delete by id. A table is the list of its rows in query order.
\<close>

definition query_all :: "store \<Rightarrow> question list" where
  "query_all st = question_rows st"

definition filter_by_category :: "int \<Rightarrow> store \<Rightarrow> question list" where
  "filter_by_category cid st = filter (\<lambda>q. q_category q = cid) (question_rows st)"

text \<open>\<^verbatim>\<open>Question.query.get(id)\<close>: the row with that primary key, or \<^verbatim>\<open>None\<close>.\<close>

definition query_get :: "int \<Rightarrow> store \<Rightarrow> question option" where
  "query_get i st = find (\<lambda>q. q_id q = i) (question_rows st)"

text \<open>\<^verbatim>\<open>question.delete()\<close>: the row leaves the table.\<close>

definition row_delete :: "question \<Rightarrow> store \<Rightarrow> store" where
  "row_delete q st = st\<lparr>question_rows := filter (\<lambda>x. q_id x \<noteq> q_id q) (question_rows st)\<rparr>"

text \<open>
  \<^verbatim>\<open>Category.query.filter_by(id=id).one_or_none()\<close>: no row gives \<^verbatim>\<open>None\<close>, one row
  gives it, several rows raise.
\<close>

definition category_one_or_none :: "int \<Rightarrow> store \<Rightarrow> py_exc + category option" where
  "category_one_or_none i st =
     (case filter (\<lambda>c. c_id c = i) (category_rows st) of
        [] \<Rightarrow> Inr None
      | [c] \<Rightarrow> Inr (Some c)
      | _ \<Rightarrow> Inl MultipleResultsFound)"

section \<open>Handlers\<close>

text \<open>
  A Python dictionary keeps its keys in insertion order: \<^verbatim>\<open>d[k] = v\<close> replaces the
  value of a key that is there and appends a key that is not.
\<close>

fun dict_set :: "'k \<Rightarrow> 'v \<Rightarrow> ('k \<times> 'v) list \<Rightarrow> ('k \<times> 'v) list" where
  "dict_set k v [] = [(k, v)]"
| "dict_set k v ((k', v') # d) = (if k' = k then (k', v) # d else (k', v') # dict_set k v d)"

text \<open>
  The loop \<^verbatim>\<open>for category in categories: categories_dict[category.id] = category.type\<close>.
\<close>

definition categories_dict :: "category list \<Rightarrow> (int \<times> string) list" where
  "categories_dict cs = foldl (\<lambda>d c. dict_set (c_id c) (c_type c) d) [] cs"

definition get_all_categories :: "store \<Rightarrow> 'f outcome" where
  "get_all_categories st =
     (let categories = category_rows st
      in Response 200 (CategoriesDoc (categories_dict categories)))"

definition get_questions :: "(question \<Rightarrow> 'f) \<Rightarrow> request \<Rightarrow> store \<Rightarrow> 'f outcome" where
  "get_questions fmt req st =
     (let selection = query_all st;
          total_questions = length selection;
          current_questions = paginate_questions fmt req selection
      in if length current_questions = 0 then Abort 404
         else Response 200
                (QuestionsDoc current_questions total_questions (categories_dict (category_rows st))))"

text \<open>
  \<^verbatim>\<open>delete_question(id)\<close>. The body of the \<^verbatim>\<open>try\<close> calls \<^verbatim>\<open>delete\<close> on what
  \<^verbatim>\<open>Question.query.get(id)\<close> returned; on \<^verbatim>\<open>None\<close> the attribute lookup raises
  \<^verbatim>\<open>AttributeError\<close>. The handler catches \<^verbatim>\<open>IndexError\<close> only.
\<close>

definition delete_question :: "int \<Rightarrow> store \<Rightarrow> 'f outcome \<times> store" where
  "delete_question i st =
     (case query_get i st of
        None \<Rightarrow> (except_IndexError (Raised AttributeError) 422, st)
      | Some question \<Rightarrow>
          (except_IndexError (Response 200 (MessageDoc ''Question successfully deleted!'')) 422,
           row_delete question st))"

text \<open>
  The attribute lookup \<^verbatim>\<open>data.get\<close>: a dictionary has the method, and on
  \<^verbatim>\<open>None\<close>, a list, a string, a number or a boolean the lookup raises
  \<^verbatim>\<open>AttributeError\<close>.
\<close>

definition get_method :: "json_doc \<Rightarrow> py_exc + json_body" where
  "get_method data = (case data of JObject d \<Rightarrow> Inr d | _ \<Rightarrow> Inl AttributeError)"

text \<open>
  \<^verbatim>\<open>data.get(key)\<close>: Python's \<^verbatim>\<open>None\<close> for a key that is not there and for a key
  that holds \<^verbatim>\<open>null\<close>.
\<close>

definition dict_get :: "'a field \<Rightarrow> 'a option" where
  "dict_get v = (case v of Absent \<Rightarrow> None | NullValue \<Rightarrow> None | Present x \<Rightarrow> Some x)"

text \<open>
  \<^verbatim>\<open>data.get(key, '')\<close>: the default stands in for a key that is not there only; a
  key that holds \<^verbatim>\<open>null\<close> gives \<^verbatim>\<open>None\<close>, which is not equal to \<^verbatim>\<open>''\<close>.
\<close>

definition get_or_empty :: "pyval field \<Rightarrow> pyval" where
  "get_or_empty v = (case v of Absent \<Rightarrow> PyStr [] | NullValue \<Rightarrow> PyNone | Present x \<Rightarrow> x)"

text \<open>
  \<^verbatim>\<open>create_question()\<close>. \<open>ins\<close> stands for \<^verbatim>\<open>Question(...).insert()\<close> of
  \<^verbatim>\<open>models.py\<close>, which is not among the sources: it returns the store with the new
  row, or the exception it raised.
\<close>

definition create_question ::
  "(pyval \<Rightarrow> pyval \<Rightarrow> pyval \<Rightarrow> pyval \<Rightarrow> store \<Rightarrow> py_exc + store) \<Rightarrow> request \<Rightarrow> store
     \<Rightarrow> 'f outcome \<times> store" where
  "create_question ins req st =
     (case get_method (r_json req) of
        Inl e \<Rightarrow> (Raised e, st)
      | Inr data \<Rightarrow>
          (let question = get_or_empty (j_question data);
               answer = get_or_empty (j_answer data);
               difficulty = get_or_empty (j_difficulty data);
               category = get_or_empty (j_category data)
           in if question = PyStr [] \<or> answer = PyStr [] \<or> difficulty = PyStr []
                 \<or> category = PyStr []
              then (Abort 422, st)
              else (case ins question answer difficulty category st of
                      Inl e \<Rightarrow> (except_IndexError (Raised e) 422, st)
                    | Inr st' \<Rightarrow>
                        (except_IndexError
                           (Response 201 (MessageDoc ''Question successfully created!'')) 422,
                         st'))))"

text \<open>
  Reading a variable: the name is looked up among the bindings in scope, and a name
  that is bound nowhere raises \<^verbatim>\<open>NameError\<close>.
\<close>

definition lookup_name :: "(string \<times> 'a) list \<Rightarrow> string \<Rightarrow> py_exc + 'a" where
  "lookup_name scope name =
     (case map_of scope name of None \<Rightarrow> Inl NameError | Some v \<Rightarrow> Inr v)"

text \<open>
  The string that an f-string puts in for the search term: the text of a string, and
  \<^verbatim>\<open>None\<close> for Python's \<^verbatim>\<open>None\<close>.
\<close>

definition format_term :: "string option \<Rightarrow> string" where
  "format_term t = (case t of None \<Rightarrow> ''None'' | Some s \<Rightarrow> s)"

text \<open>
  \<^verbatim>\<open>search_questions()\<close>. Its first statement reads \<^verbatim>\<open>reques\<close>; the request object
  in scope is bound to the name \<^verbatim>\<open>request\<close>, and no local, enclosing, global or
  builtin name is spelled \<^verbatim>\<open>reques\<close>. Inside the \<^verbatim>\<open>try\<close> it reads
  \<^verbatim>\<open>questions\<close>; the only list in scope is bound to \<^verbatim>\<open>selection\<close>.
  \<open>ilike\<close> stands for the store's \<^verbatim>\<open>ILIKE\<close> operator (pattern first), which is
  outside the sources; the pattern is \<^verbatim>\<open>f'%{search_term}%'\<close>. The search term is a
  string or Python's \<^verbatim>\<open>None\<close>.
\<close>

definition search_questions ::
  "(string \<Rightarrow> string \<Rightarrow> bool) \<Rightarrow> (question \<Rightarrow> 'f) \<Rightarrow> request \<Rightarrow> store \<Rightarrow> 'f outcome" where
  "search_questions ilike fmt req st =
     (case lookup_name [(''request'', req)] ''reques'' of
        Inl e \<Rightarrow> Raised e
      | Inr reques \<Rightarrow>
          (case get_method (r_json reques) of
             Inl e \<Rightarrow> Raised e
           | Inr data \<Rightarrow>
               (let search_term =
                      (case j_searchTerm data of
                         Absent \<Rightarrow> Some [] | NullValue \<Rightarrow> None | Present t \<Rightarrow> Some t)
                in if search_term = Some [] then Abort 422
                   else except_IndexError
                     (let selection =
                            filter (\<lambda>q. ilike (''%'' @ format_term search_term @ ''%'') (q_text q))
                              (question_rows st)
                      in case lookup_name [(''selection'', selection)] ''questions'' of
                           Inl e \<Rightarrow> Raised e
                         | Inr questions \<Rightarrow>
                             if length questions = 0 then Abort 404
                             else (let paginated = paginate_questions fmt req selection
                                   in Response 200 (SearchDoc paginated (length (query_all st)))))
                     404)))"

definition get_questions_by_category ::
  "(question \<Rightarrow> 'f) \<Rightarrow> int \<Rightarrow> request \<Rightarrow> store \<Rightarrow> 'f outcome" where
  "get_questions_by_category fmt i req st =
     (case category_one_or_none i st of
        Inl e \<Rightarrow> Raised e
      | Inr None \<Rightarrow> Abort 400
      | Inr (Some category) \<Rightarrow>
          (let selection = filter_by_category i st;
               paginated = paginate_questions fmt req selection
           in Response 200 (CategoryDoc paginated (length (query_all st)) (c_type category))))"

section \<open>The quiz\<close>

text \<open>
  The random source is a stream of raw draws, \<open>rnd k\<close> being the \<open>k\<close>-th one.
  \<^verbatim>\<open>random.randint(a, b)\<close> raises \<^verbatim>\<open>ValueError\<close> on an empty range and returns a
  number between \<open>a\<close> and \<open>b\<close> otherwise.
\<close>

definition randint :: "(nat \<Rightarrow> nat) \<Rightarrow> nat \<Rightarrow> int \<Rightarrow> int \<Rightarrow> py_exc + int" where
  "randint rnd k a b =
     (if b < a then Inl ValueError else Inr (a + int (rnd k mod nat (b - a + 1))))"

text \<open>Python's \<^verbatim>\<open>xs[i]\<close>: a negative index counts from the end.\<close>

definition py_index :: "'a list \<Rightarrow> int \<Rightarrow> py_exc + 'a" where
  "py_index xs i =
     (let n = int (length xs);
          j = (if i < 0 then i + n else i)
      in if 0 \<le> j \<and> j < n then Inr (xs ! nat j) else Inl IndexError)"

text \<open>
  The inner function
  \<^verbatim>\<open>return questions[random.randint(0, len(questions)-1)]\<close>, at the \<open>k\<close>-th draw.
\<close>

definition get_random_question :: "(nat \<Rightarrow> nat) \<Rightarrow> nat \<Rightarrow> question list \<Rightarrow> py_exc + question" where
  "get_random_question rnd k questions =
     (case randint rnd k 0 (int (length questions) - 1) of
        Inl e \<Rightarrow> Inl e
      | Inr i \<Rightarrow> py_index questions i)"

text \<open>
  The loop \<^verbatim>\<open>while found: ...\<close> of \<^verbatim>\<open>get_random_quiz_question\<close>; its state is the
  number of draws made, \<^verbatim>\<open>next_question\<close> and \<^verbatim>\<open>found\<close>. The loop has no bound in
  the source: a run that never leaves it has the value \<open>None\<close>.
\<close>

partial_function (option) quiz_loop ::
  "(nat \<Rightarrow> nat) \<Rightarrow> question list \<Rightarrow> int list \<Rightarrow> nat \<Rightarrow> question \<Rightarrow> bool
     \<Rightarrow> (py_exc + question) option" where
  "quiz_loop rnd questions previous_questions k next_question found =
     (if found then
        (if q_id next_question \<in> set previous_questions then
           (case get_random_question rnd k questions of
              Inl e \<Rightarrow> Some (Inl e)
            | Inr q \<Rightarrow> quiz_loop rnd questions previous_questions (Suc k) q True)
         else quiz_loop rnd questions previous_questions k next_question False)
      else Some (Inr next_question))"

declare quiz_loop.simps [code]

text \<open>
  The candidate pool of a quiz, from the value of \<^verbatim>\<open>quiz_category['id']\<close>: every
  question for 0, else the questions of that category.
\<close>

definition quiz_pool :: "int \<Rightarrow> store \<Rightarrow> question list" where
  "quiz_pool cid st = (if cid = 0 then query_all st else filter_by_category cid st)"

text \<open>
  \<^verbatim>\<open>get_random_quiz_question()\<close>; \<open>None\<close> when the handler never returns. The
  subscript \<^verbatim>\<open>quiz_category['id']\<close> raises \<^verbatim>\<open>KeyError\<close> on an object without the
  key.
\<close>

definition get_random_quiz_question ::
  "(nat \<Rightarrow> nat) \<Rightarrow> (question \<Rightarrow> 'f) \<Rightarrow> request \<Rightarrow> store \<Rightarrow> 'f outcome option" where
  "get_random_quiz_question rnd fmt req st =
     (case get_method (r_json req) of
        Inl e \<Rightarrow> Some (Raised e)
      | Inr data \<Rightarrow>
          (case (dict_get (j_quiz_category data), dict_get (j_previous_questions data)) of
             (None, _) \<Rightarrow> Some (Abort 400)
           | (Some _, None) \<Rightarrow> Some (Abort 400)
           | (Some quiz_category, Some previous_questions) \<Rightarrow>
               (case qc_id quiz_category of
                  None \<Rightarrow> Some (Raised KeyError)
                | Some cid \<Rightarrow>
                    (let questions = quiz_pool cid st
                     in case get_random_question rnd 0 questions of
                          Inl e \<Rightarrow> Some (Raised e)
                        | Inr next_question \<Rightarrow>
                            (case quiz_loop rnd questions previous_questions 1 next_question True of
                               None \<Rightarrow> None
                             | Some (Inl e) \<Rightarrow> Some (Raised e)
                             | Some (Inr q) \<Rightarrow> Some (Response 200 (QuizDoc (fmt q))))))))"

section \<open>Routing\<close>

text \<open>
  The URL map of the application, in the order of the \<^verbatim>\<open>@app.route\<close> decorators. A
  route with no \<^verbatim>\<open>methods\<close> answers \<^verbatim>\<open>GET\<close>. The framework walks the map in
  registration order and takes the first rule whose pattern and method both match, so
  of two rules with one pattern and one method the earlier one answers
  (\<open>find_rule\<close> below).
\<close>

datatype rule = RCategories | RQuestions | RQuestionItem | RCategoryQuestions | RQuizzes

datatype endpoint =
    EP_get_all_categories
  | EP_get_questions
  | EP_delete_question
  | EP_create_question
  | EP_search_questions
  | EP_get_questions_by_category
  | EP_get_random_quiz_question

definition url_map :: "(rule \<times> http_method list \<times> endpoint) list" where
  "url_map =
     [(RCategories, [GET], EP_get_all_categories),
      (RQuestions, [GET], EP_get_questions),
      (RQuestionItem, [DELETE], EP_delete_question),
      (RQuestions, [POST], EP_create_question),
      (RQuestions, [POST], EP_search_questions),
      (RCategoryQuestions, [GET], EP_get_questions_by_category),
      (RQuizzes, [POST], EP_get_random_quiz_question)]"

text \<open>A rule against a path: the view arguments when it matches.\<close>

fun rule_match :: "rule \<Rightarrow> path \<Rightarrow> int list option" where
  "rule_match RCategories PCategories = Some []"
| "rule_match RQuestions PQuestions = Some []"
| "rule_match RQuestionItem (PQuestionItem n) = Some [int n]"
| "rule_match RCategoryQuestions (PCategoryQuestions n) = Some [int n]"
| "rule_match RQuizzes PQuizzes = Some []"
| "rule_match _ _ = None"

fun find_rule ::
  "(rule \<times> http_method list \<times> endpoint) list \<Rightarrow> http_method \<Rightarrow> path
     \<Rightarrow> (endpoint \<times> int list) option" where
  "find_rule [] m p = None"
| "find_rule ((r, ms, ep) # rest) m p =
     (case rule_match r p of
        None \<Rightarrow> find_rule rest m p
      | Some args \<Rightarrow> if m \<in> set ms then Some (ep, args) else find_rule rest m p)"

text \<open>The view function of an endpoint, called with the view arguments.\<close>

fun view_function ::
  "(nat \<Rightarrow> nat) \<Rightarrow> (string \<Rightarrow> string \<Rightarrow> bool)
     \<Rightarrow> (pyval \<Rightarrow> pyval \<Rightarrow> pyval \<Rightarrow> pyval \<Rightarrow> store \<Rightarrow> py_exc + store)
     \<Rightarrow> (question \<Rightarrow> 'f) \<Rightarrow> endpoint \<Rightarrow> int list \<Rightarrow> request \<Rightarrow> store
     \<Rightarrow> ('f outcome \<times> store) option" where
  "view_function rnd ilike ins fmt EP_get_all_categories [] req st =
     Some (get_all_categories st, st)"
| "view_function rnd ilike ins fmt EP_get_questions [] req st =
     Some (get_questions fmt req st, st)"
| "view_function rnd ilike ins fmt EP_delete_question [i] req st =
     Some (delete_question i st)"
| "view_function rnd ilike ins fmt EP_create_question [] req st =
     Some (create_question ins req st)"
| "view_function rnd ilike ins fmt EP_search_questions [] req st =
     Some (search_questions ilike fmt req st, st)"
| "view_function rnd ilike ins fmt EP_get_questions_by_category [i] req st =
     Some (get_questions_by_category fmt i req st, st)"
| "view_function rnd ilike ins fmt EP_get_random_quiz_question [] req st =
     map_option (\<lambda>r. (r, st)) (get_random_quiz_question rnd fmt req st)"
| "view_function rnd ilike ins fmt _ _ req st = Some (Raised TypeError, st)"

text \<open>
  One request against the application: no rule for the path is 404, a rule for the
  path but none for the method is 405. The lookup in the URL map belongs to the
  framework, which is outside the sources, and is a parameter here.
\<close>

type_synonym router =
  "(rule \<times> http_method list \<times> endpoint) list \<Rightarrow> http_method \<Rightarrow> path
     \<Rightarrow> (endpoint \<times> int list) option"

definition dispatch_via ::
  "router \<Rightarrow> (nat \<Rightarrow> nat) \<Rightarrow> (string \<Rightarrow> string \<Rightarrow> bool)
     \<Rightarrow> (pyval \<Rightarrow> pyval \<Rightarrow> pyval \<Rightarrow> pyval \<Rightarrow> store \<Rightarrow> py_exc + store)
     \<Rightarrow> (question \<Rightarrow> 'f) \<Rightarrow> request \<Rightarrow> store \<Rightarrow> ('f outcome \<times> store) option" where
  "dispatch_via router rnd ilike ins fmt req st =
     (case router url_map (r_method req) (r_path req) of
        Some (ep, args) \<Rightarrow> view_function rnd ilike ins fmt ep args req st
      | None \<Rightarrow>
          if list_ex (\<lambda>(r, ms, ep). rule_match r (r_path req) \<noteq> None) url_map
          then Some (Abort 405, st)
          else Some (Abort 404, st))"

text \<open>
  The property of the framework's router that the handlers of one rule depend on: of
  the rules that match path and method, the one registered first answers. The tests
  of the repository rely on it: they expect 422, the answer of \<^verbatim>\<open>create_question\<close>,
  for a \<^verbatim>\<open>POST /questions\<close> that carries a search term only.
\<close>

definition first_registered_wins :: "router \<Rightarrow> bool" where
  "first_registered_wins router = (\<forall>rules m p. router rules m p = find_rule rules m p)"

text \<open>The application under the first-match router.\<close>

definition dispatch ::
  "(nat \<Rightarrow> nat) \<Rightarrow> (string \<Rightarrow> string \<Rightarrow> bool)
     \<Rightarrow> (pyval \<Rightarrow> pyval \<Rightarrow> pyval \<Rightarrow> pyval \<Rightarrow> store \<Rightarrow> py_exc + store)
     \<Rightarrow> (question \<Rightarrow> 'f) \<Rightarrow> request \<Rightarrow> store \<Rightarrow> ('f outcome \<times> store) option" where
  "dispatch rnd ilike ins fmt req st = dispatch_via find_rule rnd ilike ins fmt req st"

section \<open>Sample data\<close>

text \<open>
  A small catalog and the requests of the test suite, for evaluating the handlers on
  concrete inputs.
\<close>

definition sample_question :: "int \<Rightarrow> int \<Rightarrow> question" where
  "sample_question i c =
     \<lparr>q_id = i, q_text = ''What?'', q_answer = ''That'', q_category = c, q_difficulty = 1\<rparr>"

definition sample_store :: store where
  "sample_store =
     \<lparr>question_rows =
        [sample_question 5 1, sample_question 9 1, sample_question 12 1, sample_question 20 2],
      category_rows = [\<lparr>c_id = 1, c_type = ''Science''\<rparr>, \<lparr>c_id = 2, c_type = ''Art''\<rparr>]\<rparr>"

definition empty_body :: json_body where
  "empty_body =
     \<lparr>j_question = Absent, j_answer = Absent, j_difficulty = Absent, j_category = Absent,
      j_searchTerm = Absent, j_previous_questions = Absent, j_quiz_category = Absent\<rparr>"

definition sample_request :: "http_method \<Rightarrow> path \<Rightarrow> json_body \<Rightarrow> request" where
  "sample_request m p body = \<lparr>r_method = m, r_path = p, r_page = None, r_json = JObject body\<rparr>"

definition quiz_request :: "int list \<Rightarrow> int \<Rightarrow> request" where
  "quiz_request prev cid =
     sample_request POST PQuizzes
       (empty_body\<lparr>j_previous_questions := Present prev,
                   j_quiz_category := Present \<lparr>qc_type = ''Science'', qc_id = Some cid\<rparr>\<rparr>)"

definition search_request :: "string \<Rightarrow> request" where
  "search_request term =
     sample_request POST PQuestions (empty_body\<lparr>j_searchTerm := Present term\<rparr>)"

definition page_request :: "int option \<Rightarrow> request" where
  "page_request p = (sample_request GET PQuestions empty_body)\<lparr>r_page := p\<rparr>"


text \<open>
  Modelled from the spec: \<^verbatim>\<open>insert_question(text, answer, category, difficulty)\<close> of
  the catalog store (\<^verbatim>\<open>Question(...).insert()\<close> of \<^verbatim>\<open>models.py\<close>, not among the
  sources), as one instance of the parameter \<open>ins\<close>: the new row gets the next id
  and goes to the end of the table, and a field of the wrong type is refused.
\<close>

definition sample_insert :: "pyval \<Rightarrow> pyval \<Rightarrow> pyval \<Rightarrow> pyval \<Rightarrow> store \<Rightarrow> py_exc + store" where
  "sample_insert question answer difficulty category st =
     (case (question, answer, difficulty, category) of
        (PyStr t, PyStr a, PyInt d, PyInt c) \<Rightarrow>
          Inr (st\<lparr>question_rows := question_rows st @
                 [\<lparr>q_id = fold max (map q_id (question_rows st)) 0 + 1, q_text = t, q_answer = a,
                   q_category = c, q_difficulty = d\<rparr>]\<rparr>)
      | _ \<Rightarrow> Inl DataError)"

section \<open>Pagination: properties\<close>

lemma py_slice_nonneg:
  assumes "0 \<le> s" and "0 \<le> k"
  shows "py_slice xs s (s + k) = take (nat k) (drop (nat s) xs)"
proof (cases "s \<le> int (length xs)")
  case True
  show ?thesis
  proof (cases "s + k \<le> int (length xs)")
    case True
    with assms \<open>s \<le> int (length xs)\<close> show ?thesis
      by (simp add: py_slice_def slice_bound_def Let_def min_def)
  next
    case False
    with assms \<open>s \<le> int (length xs)\<close>
    have "length (drop (nat s) xs) \<le> nat k" by (simp; linarith)
    then have "take (nat k) (drop (nat s) xs) = drop (nat s) xs" by simp
    moreover from False assms \<open>s \<le> int (length xs)\<close>
    have "py_slice xs s (s + k) = take (nat (int (length xs) - s)) (drop (nat s) xs)"
      by (simp add: py_slice_def slice_bound_def Let_def min_def)
    moreover have "length (drop (nat s) xs) \<le> nat (int (length xs) - s)"
      using assms by (simp; linarith)
    ultimately show ?thesis by simp
  qed
next
  case False
  with assms show ?thesis
    by (simp add: py_slice_def slice_bound_def Let_def min_def)
qed

text \<open>
  C3. For a page number \<open>p \<ge> 1\<close>, \<^verbatim>\<open>paginate_questions\<close> returns the slice of the
  formatted items from \<open>(p - 1) * 10\<close>, ten items long, cut silently at the end of the
  sequence. The empty sequence gives the empty page; of 25 items, page 3 holds the
  items 20 to 24 and page 4 is empty; a request with no page argument reads page 1.
\<close>

theorem paginate_questions_slice:
  "(1 \<le> p \<longrightarrow>
      paginate_questions fmt (req\<lparr>r_page := Some p\<rparr>) items
        = take 10 (drop (nat ((p - 1) * 10)) (map fmt items)))
   \<and> paginate_questions fmt (req\<lparr>r_page := Some 1\<rparr>) [] = []
   \<and> (length items = 25 \<longrightarrow>
        paginate_questions fmt (req\<lparr>r_page := Some 3\<rparr>) items = map fmt (drop 20 items)
      \<and> length (paginate_questions fmt (req\<lparr>r_page := Some 3\<rparr>) items) = 5
      \<and> paginate_questions fmt (req\<lparr>r_page := Some 4\<rparr>) items = [])
   \<and> paginate_questions fmt (req\<lparr>r_page := None\<rparr>) items
        = paginate_questions fmt (req\<lparr>r_page := Some 1\<rparr>) items"
proof -
  have page: "paginate_questions fmt (req\<lparr>r_page := Some q\<rparr>) xs
      = take 10 (drop (nat ((q - 1) * 10)) (map fmt xs))" if "1 \<le> q" for q xs
    using that py_slice_nonneg [of "(q - 1) * 10" 10 "map fmt xs"]
    by (simp add: paginate_questions_def QUESTIONS_PER_PAGE_def Let_def)
  have dflt: "paginate_questions fmt (req\<lparr>r_page := None\<rparr>) items
      = paginate_questions fmt (req\<lparr>r_page := Some 1\<rparr>) items"
    by (simp add: paginate_questions_def)
  have three: "paginate_questions fmt (req\<lparr>r_page := Some 3\<rparr>) items = map fmt (drop 20 items)"
    if "length items = 25"
    using that page [of 3 items] by (simp add: drop_map)
  have four: "paginate_questions fmt (req\<lparr>r_page := Some 4\<rparr>) items = []"
    if "length items = 25"
    using that page [of 4 items] by simp
  from page [of p items] page [of 1 "[]"] three four dflt show ?thesis by simp
qed

theorem paginate_questions_slice_witness:
  "(1 :: int) \<le> 3
   \<and> length (map (\<lambda>i. sample_question i 1) [1..25]) = 25
   \<and> paginate_questions q_id (page_request (Some 3)) (map (\<lambda>i. sample_question i 1) [1..25])
       = [21, 22, 23, 24, 25]
   \<and> paginate_questions q_id (page_request (Some 4)) (map (\<lambda>i. sample_question i 1) [1..25]) = []"
proof -
  let ?items = "map (\<lambda>i. sample_question i 1) [1..25]"
  have len: "length ?items = 25" by simp
  have ids: "map q_id (drop 20 ?items) = [21, 22, 23, 24, 25]"
    by code_simp
  have req: "page_request (Some n) = (page_request None)\<lparr>r_page := Some n\<rparr>" for n
    by (simp add: page_request_def)
  from paginate_questions_slice [of 3 q_id "page_request None" ?items] len
  have "paginate_questions q_id (page_request (Some 3)) ?items = map q_id (drop 20 ?items)"
    and "paginate_questions q_id (page_request (Some 4)) ?items = []"
    unfolding req by blast+
  with len ids show ?thesis by simp
qed

section \<open>The quiz: properties\<close>

lemma get_random_question_nonempty:
  assumes "qs \<noteq> []"
  shows "\<exists>q. get_random_question rnd k qs = Inr q \<and> q \<in> set qs"
proof -
  from assms have len: "0 < length qs" by simp
  define i where "i = rnd k mod length qs"
  have "i < length qs" using len by (simp add: i_def)
  then show ?thesis using len
    by (simp add: get_random_question_def randint_def py_index_def Let_def i_def nat_add_distrib)
qed

lemma get_random_question_empty: "get_random_question rnd k [] = Inl ValueError"
  by (simp add: get_random_question_def randint_def)

lemma get_random_question_Inr:
  assumes "get_random_question rnd k qs = Inr q"
  shows "q \<in> set qs"
proof (cases "qs = []")
  case True
  with assms show ?thesis by (simp add: get_random_question_empty)
next
  case False
  from get_random_question_nonempty [OF False, of rnd k] assms show ?thesis by auto
qed

text \<open>
  What the loop returns, when it returns a question: a question of the pool whose id
  is not among the previous ones.
\<close>

lemma quiz_loop_sound:
  assumes run: "quiz_loop rnd qs prev k nq found = Some r"
  shows "nq \<in> set qs \<longrightarrow> (\<not> found \<longrightarrow> q_id nq \<notin> set prev)
           \<longrightarrow> (\<forall>q. r = Inr q \<longrightarrow> q \<in> set qs \<and> q_id q \<notin> set prev)"
proof -
  let ?P = "\<lambda>(rnd :: nat \<Rightarrow> nat) qs prev (k :: nat) nq found r.
      nq \<in> set qs \<longrightarrow> (\<not> found \<longrightarrow> q_id nq \<notin> set prev)
        \<longrightarrow> (\<forall>q. r = Inr q \<longrightarrow> q \<in> set qs \<and> q_id q \<notin> set prev)"
  have "?P rnd qs prev k nq found r"
  proof (rule quiz_loop.raw_induct [where P = ?P, OF _ run])
    fix loop :: "(nat \<Rightarrow> nat) \<Rightarrow> question list \<Rightarrow> int list \<Rightarrow> nat \<Rightarrow> question \<Rightarrow> bool
                   \<Rightarrow> (py_exc + question) option"
      and rnd qs prev k nq found r
    assume IH: "\<And>rnd qs prev k nq found r.
        loop rnd qs prev k nq found = Some r \<Longrightarrow> ?P rnd qs prev k nq found r"
    assume body: "(if found then
          (if q_id nq \<in> set prev then
             (case get_random_question rnd k qs of
                Inl e \<Rightarrow> Some (Inl e)
              | Inr q \<Rightarrow> loop rnd qs prev (Suc k) q True)
           else loop rnd qs prev k nq False)
        else Some (Inr nq)) = Some r"
    show "?P rnd qs prev k nq found r"
    proof (cases found)
      case False
      with body show ?thesis by auto
    next
      case True
      show ?thesis
      proof (cases "q_id nq \<in> set prev")
        case False
        with True body have "loop rnd qs prev k nq False = Some r" by simp
        from IH [OF this] False show ?thesis by simp
      next
        case seen: True
        show ?thesis
        proof (cases "get_random_question rnd k qs")
          case (Inl e)
          with True seen body show ?thesis by auto
        next
          case (Inr q')
          with True seen body have "loop rnd qs prev (Suc k) q' True = Some r" by simp
          from IH [OF this] get_random_question_Inr [OF Inr] show ?thesis by simp
        qed
      qed
    qed
  qed
  then show ?thesis .
qed

text \<open>
  A run of the loop that returns did not start from a question already asked with
  every question of a non-empty pool already asked.
\<close>

lemma quiz_loop_covered_aux:
  assumes run: "quiz_loop rnd qs prev k nq found = Some r"
  shows "\<not> (found \<and> q_id nq \<in> set prev \<and> qs \<noteq> [] \<and> list_all (\<lambda>q. q_id q \<in> set prev) qs)"
proof -
  let ?P = "\<lambda>(rnd :: nat \<Rightarrow> nat) qs prev (k :: nat) nq found (r :: py_exc + question).
      \<not> (found \<and> q_id nq \<in> set prev \<and> qs \<noteq> [] \<and> list_all (\<lambda>q. q_id q \<in> set prev) qs)"
  have "?P rnd qs prev k nq found r"
  proof (rule quiz_loop.raw_induct [where P = ?P, OF _ run])
    fix loop :: "(nat \<Rightarrow> nat) \<Rightarrow> question list \<Rightarrow> int list \<Rightarrow> nat \<Rightarrow> question \<Rightarrow> bool
                   \<Rightarrow> (py_exc + question) option"
      and rnd qs prev k nq found r
    assume IH: "\<And>rnd qs prev k nq found r.
        loop rnd qs prev k nq found = Some r \<Longrightarrow> ?P rnd qs prev k nq found r"
    assume body: "(if found then
          (if q_id nq \<in> set prev then
             (case get_random_question rnd k qs of
                Inl e \<Rightarrow> Some (Inl e)
              | Inr q \<Rightarrow> loop rnd qs prev (Suc k) q True)
           else loop rnd qs prev k nq False)
        else Some (Inr nq)) = Some (r :: py_exc + question)"
    show "?P rnd qs prev k nq found r"
    proof
      assume inv: "found \<and> q_id nq \<in> set prev \<and> qs \<noteq> [] \<and> list_all (\<lambda>q. q_id q \<in> set prev) qs"
      then obtain q' where q': "get_random_question rnd k qs = Inr q'" "q' \<in> set qs"
        using get_random_question_nonempty [of qs rnd k] by auto
      with inv body have "loop rnd qs prev (Suc k) q' True = Some r" by simp
      from IH [OF this] inv q' show False by (auto simp: list_all_iff)
    qed
  qed
  then show ?thesis .
qed

lemma quiz_loop_covered:
  assumes "q_id nq \<in> set prev" and "qs \<noteq> []" and "list_all (\<lambda>q. q_id q \<in> set prev) qs"
  shows "quiz_loop rnd qs prev k nq True = None"
proof (cases "quiz_loop rnd qs prev k nq True")
  case None
  then show ?thesis .
next
  case (Some r)
  from quiz_loop_covered_aux [OF Some] assms show ?thesis by simp
qed

text \<open>The handler on a non-empty pool that the previous questions cover: it never returns.\<close>

lemma quiz_covered_pool_diverges:
  assumes body: "r_json req = JObject data" "j_quiz_category data = Present c" "qc_id c = Some cid"
      "j_previous_questions data = Present prev"
    and pool: "quiz_pool cid st \<noteq> []" "list_all (\<lambda>q. q_id q \<in> set prev) (quiz_pool cid st)"
  shows "get_random_quiz_question rnd fmt req st = None"
proof -
  obtain q where q: "get_random_question rnd 0 (quiz_pool cid st) = Inr q" "q \<in> set (quiz_pool cid st)"
    using get_random_question_nonempty [OF pool(1), of rnd 0] by auto
  with pool(2) have "q_id q \<in> set prev" by (simp add: list_all_iff)
  then have "quiz_loop rnd (quiz_pool cid st) prev 1 q True = None"
    using pool by (rule quiz_loop_covered)
  with body q(1) show ?thesis
    by (simp add: get_random_quiz_question_def get_method_def dict_get_def Let_def)
qed

lemma quiz_empty_pool_raises:
  assumes body: "r_json req = JObject data" "j_quiz_category data = Present c" "qc_id c = Some cid"
      "j_previous_questions data = Present prev"
    and pool: "quiz_pool cid st = []"
  shows "get_random_quiz_question rnd fmt req st = Some (Raised ValueError)"
  using assms
  by (simp add: get_random_quiz_question_def get_method_def dict_get_def Let_def
        get_random_question_empty)

text \<open>
  The guard of the handler: a JSON object in which \<^verbatim>\<open>quiz_category\<close> or
  \<^verbatim>\<open>previous_questions\<close> is not there, or is \<^verbatim>\<open>null\<close>, is answered with 400.
\<close>

lemma quiz_missing_key_bad_request:
  assumes "r_json req = JObject data"
    and "dict_get (j_quiz_category data) = None \<or> dict_get (j_previous_questions data) = None"
  shows "get_random_quiz_question rnd fmt req st = Some (Abort 400)"
  using assms
  by (auto simp: get_random_quiz_question_def get_method_def split: option.splits)

text \<open>
  C1. The claim: when the previous questions cover the whole candidate pool, or the
  pool is empty, the quiz selection ends in bounded time with a distinguished
  "exhausted" outcome. The handler at a pool of three questions, all of them asked
  before: it never returns, whatever the random draws. At an empty pool it leaves
  through the \<^verbatim>\<open>ValueError\<close> of \<^verbatim>\<open>random.randint(0, -1)\<close>.
\<close>

theorem quiz_exhausted_pool_no_outcome:
  "get_random_quiz_question rnd fmt (quiz_request [5, 9, 12] 1) sample_store = None
   \<and> get_random_quiz_question rnd fmt (quiz_request [] 7) sample_store = Some (Raised ValueError)"
proof
  have pool: "quiz_pool 1 sample_store
      = [sample_question 5 1, sample_question 9 1, sample_question 12 1]"
    by (simp add: quiz_pool_def filter_by_category_def sample_store_def sample_question_def)
  show "get_random_quiz_question rnd fmt (quiz_request [5, 9, 12] 1) sample_store = None"
    by (rule quiz_covered_pool_diverges
          [where cid = 1 and prev = "[5, 9, 12]" and c = "\<lparr>qc_type = ''Science'', qc_id = Some 1\<rparr>"
             and data = "empty_body\<lparr>j_previous_questions := Present [5, 9, 12],
               j_quiz_category := Present \<lparr>qc_type = ''Science'', qc_id = Some 1\<rparr>\<rparr>"])
       (simp_all add: pool quiz_request_def sample_request_def empty_body_def sample_question_def)
next
  have pool: "quiz_pool 7 sample_store = []"
    by (simp add: quiz_pool_def filter_by_category_def sample_store_def sample_question_def)
  show "get_random_quiz_question rnd fmt (quiz_request [] 7) sample_store = Some (Raised ValueError)"
    by (rule quiz_empty_pool_raises
          [where cid = 7 and prev = "[]" and c = "\<lparr>qc_type = ''Science'', qc_id = Some 7\<rparr>"
             and data = "empty_body\<lparr>j_previous_questions := Present [],
               j_quiz_category := Present \<lparr>qc_type = ''Science'', qc_id = Some 7\<rparr>\<rparr>"])
       (simp_all add: pool quiz_request_def sample_request_def empty_body_def)
qed

text \<open>
  C2. A quiz selection that succeeds answers with exactly one question; it is drawn
  from the candidate pool (every question when the category id is 0, else the
  questions of that category) and its id is not among the previous questions.
\<close>

theorem quiz_success_unseen_from_pool:
  assumes "get_random_quiz_question rnd fmt req st = Some (Response s doc)"
  shows "\<exists>data quiz_category cid previous_questions q.
           r_json req = JObject data
         \<and> j_quiz_category data = Present quiz_category
         \<and> qc_id quiz_category = Some cid
         \<and> j_previous_questions data = Present previous_questions
         \<and> s = 200 \<and> doc = QuizDoc (fmt q)
         \<and> q \<in> set (question_rows st)
         \<and> (cid = 0 \<or> q_category q = cid)
         \<and> q_id q \<notin> set previous_questions"
proof -
  from assms obtain data where data: "r_json req = JObject data"
    by (auto simp: get_random_quiz_question_def get_method_def split: json_doc.splits)
  from assms data obtain c prev where
    body: "j_quiz_category data = Present c" "j_previous_questions data = Present prev"
    by (auto simp: get_random_quiz_question_def get_method_def dict_get_def
          split: option.splits field.splits)
  from assms data body obtain cid where cid: "qc_id c = Some cid"
    by (auto simp: get_random_quiz_question_def get_method_def dict_get_def split: option.splits)
  from assms data body cid obtain nq where
    nq: "get_random_question rnd 0 (quiz_pool cid st) = Inr nq"
    by (auto simp: get_random_quiz_question_def get_method_def dict_get_def Let_def
          split: sum.splits)
  from assms data body cid nq obtain q where
    q: "quiz_loop rnd (quiz_pool cid st) prev 1 nq True = Some (Inr q)"
      and resp: "s = 200" "doc = QuizDoc (fmt q)"
    by (auto simp: get_random_quiz_question_def get_method_def dict_get_def Let_def
          split: option.splits sum.splits)
  from quiz_loop_sound [OF q] get_random_question_Inr [OF nq]
  have "q \<in> set (quiz_pool cid st)" "q_id q \<notin> set prev" by simp_all
  moreover from this(1)
  have "q \<in> set (question_rows st)" "cid = 0 \<or> q_category q = cid"
    by (auto simp: quiz_pool_def query_all_def filter_by_category_def split: if_splits)
  ultimately show ?thesis using data body cid resp by blast
qed

theorem quiz_success_unseen_from_pool_witness:
  "get_random_quiz_question (\<lambda>k. k) q_id (quiz_request [5, 9] 1) sample_store
     = Some (Response 200 (QuizDoc 12))
   \<and> (\<exists>q. (12 :: int) = q_id q \<and> q \<in> set (question_rows sample_store)
          \<and> q_category q = 1 \<and> q_id q \<notin> set [5, 9])"
proof -
  have run: "get_random_quiz_question (\<lambda>k. k) q_id (quiz_request [5, 9] 1) sample_store
      = Some (Response 200 (QuizDoc 12))"
    by code_simp
  from quiz_success_unseen_from_pool [OF run] show ?thesis
    using run by (auto simp: quiz_request_def sample_request_def empty_body_def)
qed

text \<open>
  C8. The claim: every quiz request in which the category or the previous questions
  are absent is answered with 400. The handler at a body whose \<^verbatim>\<open>quiz_category\<close> is
  an object with no \<^verbatim>\<open>id\<close>: the guard lets it pass, and the subscript
  \<^verbatim>\<open>quiz_category['id']\<close> raises \<^verbatim>\<open>KeyError\<close>. At the body \<^verbatim>\<open>null\<close>, which holds
  neither input: \<^verbatim>\<open>data.get\<close> raises \<^verbatim>\<open>AttributeError\<close>. Nothing catches either, and
  the client sees 500. At the empty object the guard answers 400.
\<close>

theorem quiz_absent_input_outcome:
  "get_random_quiz_question rnd fmt
      (sample_request POST PQuizzes
         (empty_body\<lparr>j_previous_questions := Present [5, 9],
                     j_quiz_category := Present \<lparr>qc_type = ''Science'', qc_id = None\<rparr>\<rparr>))
      st
     = Some (Raised KeyError)
   \<and> get_random_quiz_question rnd fmt ((sample_request POST PQuizzes empty_body)\<lparr>r_json := JNull\<rparr>) st
       = Some (Raised AttributeError)
   \<and> status_of (Raised KeyError :: 'f outcome) = 500
   \<and> status_of (Raised AttributeError :: 'f outcome) = 500
   \<and> get_random_quiz_question rnd fmt (sample_request POST PQuizzes empty_body) st
       = Some (Abort 400)"
  by (simp add: get_random_quiz_question_def get_method_def dict_get_def sample_request_def
        empty_body_def)

section \<open>Routing: properties\<close>

lemma find_rule_first_registered: "first_registered_wins find_rule"
  by (simp add: first_registered_wins_def)

lemma find_rule_post_questions: "find_rule url_map POST PQuestions = Some (EP_create_question, [])"
  by (simp add: url_map_def)

lemma find_rule_delete_item: "find_rule url_map DELETE (PQuestionItem n) = Some (EP_delete_question, [int n])"
  by (simp add: url_map_def)

text \<open>No request is routed to \<^verbatim>\<open>search_questions\<close>.\<close>

lemma find_rule_never_search: "find_rule url_map m p \<noteq> Some (EP_search_questions, args)"
  by (cases p; cases m) (simp_all add: url_map_def)

lemma dispatch_post_questions:
  assumes "r_method req = POST" and "r_path req = PQuestions"
  shows "dispatch rnd ilike ins fmt req st = Some (create_question ins req st)"
  using assms by (simp add: dispatch_def dispatch_via_def find_rule_post_questions)

lemma create_question_no_fields:
  assumes "r_json req = JObject data"
    and "j_question data = Absent \<or> j_answer data = Absent \<or> j_difficulty data = Absent
         \<or> j_category data = Absent"
  shows "create_question ins req st = (Abort 422, st)"
  using assms by (auto simp: create_question_def get_method_def get_or_empty_def Let_def)

text \<open>
  C9. \<^verbatim>\<open>create_question\<close> and \<^verbatim>\<open>search_questions\<close> are registered on the same rule
  and method. Under a router with which the first registered rule answers, every
  \<^verbatim>\<open>POST /questions\<close> is handled by \<^verbatim>\<open>create_question\<close>. A JSON object with none of
  the keys \<^verbatim>\<open>question\<close>, \<^verbatim>\<open>answer\<close>, \<^verbatim>\<open>difficulty\<close> and \<^verbatim>\<open>category\<close> (a search
  term alone, say) is rejected with 422, whatever the search would match, and the
  store is as it was.
\<close>

theorem post_questions_handled_by_create:
  "(first_registered_wins router \<and> r_method req = POST \<and> r_path req = PQuestions \<longrightarrow>
      router url_map (r_method req) (r_path req) = Some (EP_create_question, [])
    \<and> dispatch_via router rnd ilike ins fmt req st = Some (create_question ins req st))
   \<and> (first_registered_wins router \<and> r_method req = POST \<and> r_path req = PQuestions
      \<and> r_json req = JObject data
      \<and> j_question data = Absent \<and> j_answer data = Absent
      \<and> j_difficulty data = Absent \<and> j_category data = Absent \<longrightarrow>
        dispatch_via router rnd ilike ins fmt req st = Some (Abort 422, st))"
proof -
  have route: "router url_map POST PQuestions = Some (EP_create_question, [])"
    if "first_registered_wins router"
    using that by (simp add: first_registered_wins_def find_rule_post_questions)
  have handled: "dispatch_via router rnd ilike ins fmt req st = Some (create_question ins req st)"
    if "first_registered_wins router" "r_method req = POST" "r_path req = PQuestions"
    using that route by (simp add: dispatch_via_def)
  have rejected: "dispatch_via router rnd ilike ins fmt req st = Some (Abort 422, st)"
    if "first_registered_wins router" "r_method req = POST" "r_path req = PQuestions"
      "r_json req = JObject data" "j_question data = Absent"
    using that handled by (simp add: create_question_no_fields)
  from route handled rejected show ?thesis by auto
qed

theorem post_questions_handled_by_create_witness:
  "first_registered_wins find_rule
   \<and> r_method (search_request ''Chad'') = POST \<and> r_path (search_request ''Chad'') = PQuestions
   \<and> r_json (search_request ''Chad'') = JObject (empty_body\<lparr>j_searchTerm := Present ''Chad''\<rparr>)
   \<and> dispatch_via find_rule (\<lambda>k. k) (\<lambda>pattern text. True) sample_insert q_id
        (search_request ''Chad'') sample_store
       = Some (Abort 422, sample_store)"
proof -
  let ?data = "empty_body\<lparr>j_searchTerm := Present ''Chad''\<rparr>"
  have req: "first_registered_wins find_rule
      \<and> r_method (search_request ''Chad'') = POST \<and> r_path (search_request ''Chad'') = PQuestions
      \<and> r_json (search_request ''Chad'') = JObject ?data
      \<and> j_question ?data = Absent \<and> j_answer ?data = Absent
      \<and> j_difficulty ?data = Absent \<and> j_category ?data = Absent"
    by (simp add: find_rule_first_registered search_request_def sample_request_def empty_body_def)
  from post_questions_handled_by_create
    [of find_rule "search_request ''Chad''" "\<lambda>k. k" "\<lambda>pattern text. True" sample_insert q_id
        sample_store ?data]
    req
  have "dispatch_via find_rule (\<lambda>k. k) (\<lambda>pattern text. True) sample_insert q_id
      (search_request ''Chad'') sample_store = Some (Abort 422, sample_store)"
    by blast
  with req show ?thesis by simp
qed

section \<open>Deleting a question: properties\<close>

lemma query_get_absent:
  assumes "i \<notin> q_id ` set (question_rows st)"
  shows "query_get i st = None"
  using assms by (auto simp: query_get_def find_None_iff)

lemma query_get_present:
  assumes "q \<in> set (question_rows st)" and "q_id q = i"
  shows "\<exists>q'. query_get i st = Some q' \<and> q_id q' = i"
proof (cases "query_get i st")
  case None
  with assms show ?thesis by (auto simp: query_get_def find_None_iff)
next
  case (Some q')
  then show ?thesis by (auto simp: query_get_def find_Some_iff)
qed

text \<open>An id of the store: the rows with that id leave the table, and the answer is 200.\<close>

lemma delete_present_id:
  assumes "q \<in> set (question_rows st)" and "q_id q = i"
  shows "delete_question i st
      = (Response 200 (MessageDoc ''Question successfully deleted!''),
         st\<lparr>question_rows := filter (\<lambda>x. q_id x \<noteq> i) (question_rows st)\<rparr>)"
proof -
  from assms obtain q' where "query_get i st = Some q'" "q_id q' = i"
    using query_get_present by blast
  then show ?thesis by (simp add: delete_question_def row_delete_def)
qed

text \<open>
  An id that is not in the store: \<^verbatim>\<open>None.delete()\<close> raises \<^verbatim>\<open>AttributeError\<close>,
  which is no \<^verbatim>\<open>IndexError\<close>, so the \<^verbatim>\<open>abort(422)\<close> of the handler is not reached.
\<close>

lemma delete_absent_id:
  assumes "i \<notin> q_id ` set (question_rows st)"
  shows "delete_question i st = (Raised AttributeError, st)"
  using query_get_absent [OF assms] by (simp add: delete_question_def)

text \<open>
  C4. The claim: deleting an id that is not in the store fails with a not-found
  outcome, and deleting an id that is in the store removes the question and confirms.
  The handler at id 99 of the sample catalog, which has no such question:
  \<^verbatim>\<open>Question.query.get(99)\<close> is \<^verbatim>\<open>None\<close>, the call of \<^verbatim>\<open>delete\<close> on it raises
  \<^verbatim>\<open>AttributeError\<close>, the \<^verbatim>\<open>except IndexError\<close> clause does not catch it, and the
  client sees 500, through the router as well. At id 9, which is there, the question
  is removed and the answer is 200.
\<close>

theorem delete_absent_id_outcome:
  "(99 :: int) \<notin> q_id ` set (question_rows sample_store)
   \<and> delete_question 99 sample_store = (Raised AttributeError :: 'f outcome, sample_store)
   \<and> status_of (fst (delete_question 99 sample_store :: 'f outcome \<times> store)) = 500
   \<and> dispatch rnd ilike ins fmt (sample_request DELETE (PQuestionItem 99) empty_body) sample_store
       = Some (Raised AttributeError :: 'f outcome, sample_store)
   \<and> delete_question 9 sample_store
       = (Response 200 (MessageDoc ''Question successfully deleted!'') :: 'f outcome,
          sample_store\<lparr>question_rows :=
            [sample_question 5 1, sample_question 12 1, sample_question 20 2]\<rparr>)"
proof -
  have absent: "(99 :: int) \<notin> q_id ` set (question_rows sample_store)"
    by (simp add: sample_store_def sample_question_def)
  have raised: "delete_question 99 sample_store = (Raised AttributeError :: 'f outcome, sample_store)"
    using absent by (rule delete_absent_id)
  have routed: "dispatch rnd ilike ins fmt (sample_request DELETE (PQuestionItem 99) empty_body)
      sample_store = Some (delete_question 99 sample_store :: 'f outcome \<times> store)"
    by (simp add: dispatch_def dispatch_via_def sample_request_def find_rule_delete_item)
  have present: "delete_question 9 sample_store
      = (Response 200 (MessageDoc ''Question successfully deleted!'') :: 'f outcome,
         sample_store\<lparr>question_rows :=
           [sample_question 5 1, sample_question 12 1, sample_question 20 2]\<rparr>)"
    using delete_present_id [of "sample_question 9 1" sample_store 9]
    by (simp add: sample_store_def sample_question_def)
  from absent raised routed present show ?thesis by simp
qed

section \<open>Searching: properties\<close>

lemma search_questions_raises: "search_questions ilike fmt req st = Raised NameError"
  by (simp add: search_questions_def lookup_name_def)

text \<open>
  C5. The claim: a non-empty search term that matches no question gives an empty
  sequence from the search and a not-found answer from the handler. The handler at
  the term \<^verbatim>\<open>Chad\<close>, with a store operator that matches nothing: its first statement
  reads the unbound name \<^verbatim>\<open>reques\<close> and raises \<^verbatim>\<open>NameError\<close>, before any search. Sent
  as \<^verbatim>\<open>POST /questions\<close>, the request is answered by \<^verbatim>\<open>create_question\<close> with 422.
\<close>

theorem search_no_match_outcome:
  "search_questions (\<lambda>pattern text. False) fmt (search_request ''Chad'') sample_store
     = Raised NameError
   \<and> status_of (search_questions (\<lambda>pattern text. False) fmt (search_request ''Chad'')
        sample_store) = 500
   \<and> dispatch rnd (\<lambda>pattern text. False) ins fmt (search_request ''Chad'') sample_store
       = Some (Abort 422, sample_store)"
proof -
  have "dispatch rnd (\<lambda>pattern text. False) ins fmt (search_request ''Chad'') sample_store
      = Some (create_question ins (search_request ''Chad'') sample_store)"
    by (rule dispatch_post_questions) (simp_all add: search_request_def sample_request_def)
  moreover have "create_question ins (search_request ''Chad'') sample_store
      = (Abort 422 :: 'a outcome, sample_store)"
    by (rule create_question_no_fields [where data = "empty_body\<lparr>j_searchTerm := Present ''Chad''\<rparr>"])
       (simp_all add: search_request_def sample_request_def empty_body_def)
  ultimately show ?thesis by (simp add: search_questions_raises)
qed


section \<open>Questions of a category: properties\<close>

lemma filter_unique_id:
  assumes "distinct (map c_id cs)" and "c \<in> set cs"
  shows "filter (\<lambda>x. c_id x = c_id c) cs = [c]"
  using assms
proof (induction cs)
  case Nil
  then show ?case by simp
next
  case (Cons a cs)
  show ?case
  proof (cases "a = c")
    case True
    with Cons.prems have "c_id c \<notin> c_id ` set cs" by simp
    then have "\<forall>x \<in> set cs. c_id x \<noteq> c_id c" by (metis imageI)
    then have "filter (\<lambda>x. c_id x = c_id c) cs = []" by (simp add: filter_empty_conv)
    with True show ?thesis by simp
  next
    case False
    with Cons.prems have "c \<in> set cs" "c_id a \<noteq> c_id c" by auto
    with Cons show ?thesis by simp
  qed
qed

lemma category_absent:
  assumes "i \<notin> c_id ` set (category_rows st)"
  shows "category_one_or_none i st = Inr None"
proof -
  from assms have "filter (\<lambda>c. c_id c = i) (category_rows st) = []"
    by (auto simp: filter_empty_conv)
  then show ?thesis by (simp add: category_one_or_none_def)
qed

lemma category_present:
  assumes "distinct (map c_id (category_rows st))" and "c \<in> set (category_rows st)" and "c_id c = i"
  shows "category_one_or_none i st = Inr (Some c)"
  using filter_unique_id [OF assms(1,2)] assms(3) by (simp add: category_one_or_none_def)

text \<open>
  C7. For an id that no category has, the questions-by-category handler answers 400,
  whatever the question table holds; for the id of a category (ids being unique) the
  lookup returns that category, and the answer carries its label.
\<close>

theorem category_resolution:
  "(i \<notin> c_id ` set (category_rows st) \<longrightarrow>
      (\<forall>qs. get_questions_by_category fmt i req (st\<lparr>question_rows := qs\<rparr>) = Abort 400)
    \<and> get_questions_by_category fmt i req st = Abort 400
    \<and> status_of (get_questions_by_category fmt i req st) = 400)
   \<and> (distinct (map c_id (category_rows st)) \<and> c \<in> set (category_rows st) \<and> c_id c = i \<longrightarrow>
        category_one_or_none i st = Inr (Some c)
      \<and> (\<exists>page total_questions.
           get_questions_by_category fmt i req st = Response 200 (CategoryDoc page total_questions (c_type c))))"
proof (intro conjI impI)
  assume absent: "i \<notin> c_id ` set (category_rows st)"
  have "category_one_or_none i (st\<lparr>question_rows := qs\<rparr>) = Inr None" for qs
    using absent by (intro category_absent) simp
  then show "\<forall>qs. get_questions_by_category fmt i req (st\<lparr>question_rows := qs\<rparr>) = Abort 400"
    by (simp add: get_questions_by_category_def)
  from category_absent [OF absent]
  show "get_questions_by_category fmt i req st = Abort 400"
    by (simp add: get_questions_by_category_def)
  then show "status_of (get_questions_by_category fmt i req st) = 400" by simp
next
  assume "distinct (map c_id (category_rows st)) \<and> c \<in> set (category_rows st) \<and> c_id c = i"
  then have found: "category_one_or_none i st = Inr (Some c)"
    by (intro category_present) simp_all
  then show "category_one_or_none i st = Inr (Some c)" .
  from found show "\<exists>page total_questions.
      get_questions_by_category fmt i req st = Response 200 (CategoryDoc page total_questions (c_type c))"
    by (simp add: get_questions_by_category_def Let_def)
qed

theorem category_resolution_witness:
  "(100 :: int) \<notin> c_id ` set (category_rows sample_store)
   \<and> get_questions_by_category q_id 100 (page_request None) sample_store = Abort 400
   \<and> distinct (map c_id (category_rows sample_store))
   \<and> category_one_or_none 1 sample_store = Inr (Some \<lparr>c_id = 1, c_type = ''Science''\<rparr>)
   \<and> get_questions_by_category q_id 1 (page_request None) sample_store
       = Response 200 (CategoryDoc [5, 9, 12] 4 ''Science'')"
proof -
  have absent: "(100 :: int) \<notin> c_id ` set (category_rows sample_store)"
    by (simp add: sample_store_def)
  have present: "distinct (map c_id (category_rows sample_store))
      \<and> \<lparr>c_id = 1, c_type = ''Science''\<rparr> \<in> set (category_rows sample_store)
      \<and> c_id \<lparr>c_id = 1, c_type = ''Science''\<rparr> = 1"
    by (simp add: sample_store_def)
  have run: "get_questions_by_category q_id 1 (page_request None) sample_store
      = Response 200 (CategoryDoc [5, 9, 12] 4 ''Science'')"
    by code_simp
  from category_resolution
    [of 100 sample_store q_id "page_request None" "\<lparr>c_id = 1, c_type = ''Science''\<rparr>"] absent
  have "get_questions_by_category q_id 100 (page_request None) sample_store = Abort 400"
    by blast
  moreover from category_resolution
    [of 1 sample_store q_id "page_request None" "\<lparr>c_id = 1, c_type = ''Science''\<rparr>"] present
  have "category_one_or_none 1 sample_store = Inr (Some \<lparr>c_id = 1, c_type = ''Science''\<rparr>)"
    by blast
  ultimately show ?thesis using absent present run by simp
qed

section \<open>The total of an answer: properties\<close>

text \<open>
  The questions-by-category handler: in every answer that carries questions,
  \<^verbatim>\<open>total_questions\<close> is the number of questions of the whole catalog.
\<close>

lemma category_total_is_catalog_size:
  assumes "get_questions_by_category fmt i req st = Response s (CategoryDoc page n label)"
  shows "n = length (question_rows st)"
  using assms
  by (auto simp: get_questions_by_category_def query_all_def Let_def
        split: sum.splits option.splits)

text \<open>The search handler gives no answer at all.\<close>

lemma search_questions_never_answers: "search_questions ilike fmt req st \<noteq> Response s doc"
  by (simp add: search_questions_raises)


end
